theory Spec2Isabelle
  imports Main "HOL-Library.Word" "HOL-Library.Sublist"
begin

unbundle bit_operations_syntax

section \<open>JavaScript values used by the payload assembler\<close>

text \<open>
  The assembler is the TypeScript function \<open>constructPayload\<close>. It handles strings,
  optional strings, two \<open>Date\<close> objects and the numbers derived from them. An optional
  property (\<open>logId?: string\<close>) is an \<open>option\<close>: \<open>None\<close> stands for \<open>undefined\<close>.
\<close>

datatype error = TypeError | RangeError | Failure string

text \<open>
  A number is a double. The only numbers the assembler computes are time values and
  their difference: integers, or \<open>NaN\<close> for an invalid date.
\<close>

datatype jsnum = Num int | NaN

text \<open>
  A \<open>Date\<close> holds a time value: an integral number of milliseconds since the epoch of
  magnitude at most 8.64e15, or \<open>NaN\<close> for an invalid date. \<open>Date t\<close> stands for
  \<open>new Date(t)\<close>: the constructor clips, so that a number beyond the range gives an
  invalid date, as \<open>new Date('x')\<close> does.
\<close>

datatype jsdate = Date int | InvalidDate

definition maxTimeValue :: int where
  "maxTimeValue = 8640000000000000"

fun getTime :: "jsdate \<Rightarrow> jsnum" where
  "getTime (Date t) = (if \<bar>t\<bar> \<le> maxTimeValue then Num t else NaN)"
| "getTime InvalidDate = NaN"

text \<open>
  Subtraction of doubles. Every integer of magnitude up to \<open>2^53\<close> is a double, so the
  difference is exact there. The difference of two time values has magnitude below
  \<open>2^54\<close>; between \<open>2^53\<close> and \<open>2^54\<close> only the even integers are doubles, and an odd
  difference lies halfway between two of them: it is rounded to the one with the even
  significand, which is the multiple of 4.
\<close>

definition round_double :: "int \<Rightarrow> int" where
  "round_double r =
     (if \<bar>r\<bar> \<le> 2 ^ 53 \<or> even r then r
      else if (r + 1) mod 4 = 0 then r + 1 else r - 1)"

fun js_minus :: "jsnum \<Rightarrow> jsnum \<Rightarrow> jsnum" where
  "js_minus (Num a) (Num b) = Num (round_double (a - b))"
| "js_minus _ _ = NaN"

text \<open>Truthiness of an optional string: \<open>undefined\<close> and \<open>''\<close> are falsy.\<close>

fun truthy :: "string option \<Rightarrow> bool" where
  "truthy None = False"
| "truthy (Some s) = (s \<noteq> [])"

text \<open>\<open>a || b\<close> where \<open>a\<close> is an optional string and \<open>b\<close> a string.\<close>

fun js_or :: "string option \<Rightarrow> string \<Rightarrow> string" where
  "js_or (Some s) d = (if s \<noteq> [] then s else d)"
| "js_or None d = d"

text \<open>An optional string inside a template literal: \<open>undefined\<close> prints as its name.\<close>

fun template :: "string option \<Rightarrow> string" where
  "template None = ''undefined''"
| "template (Some s) = s"

section \<open>Date.prototype.toISOString\<close>

text \<open>
  Modelled from the spec: \<open>toISOString\<close> is a built-in of the JavaScript runtime and
  not a function of the sources. The spec asks for an ISO-8601 string with millisecond
  precision and a trailing UTC designator; the definition follows the built-in as
  ECMA-262 specifies it: \<open>YYYY-MM-DDTHH:mm:ss.sssZ\<close> in UTC, the year written with four
  digits when it lies in 0..9999 and with a sign and six digits otherwise, and a
  \<open>RangeError\<close> for an invalid date.
\<close>

definition msPerDay :: int where
  "msPerDay = 86400000"

definition digit_char :: "nat \<Rightarrow> char" where
  "digit_char n = ''0123456789'' ! (n mod 10)"

fun decimal :: "nat \<Rightarrow> string" where
  "decimal n = (if n < 10 then [digit_char n] else decimal (n div 10) @ [digit_char n])"

declare decimal.simps [simp del]

text \<open>The decimal digits of \<open>n\<close>, padded with zeros on the left to at least \<open>w\<close> digits.\<close>

definition zero_padded :: "nat \<Rightarrow> nat \<Rightarrow> string" where
  "zero_padded w n = replicate (w - length (decimal n)) CHR ''0'' @ decimal n"

text \<open>
  Year, month (1..12) and day of the month (1..31) of a day number counted from the
  epoch, in the proleptic Gregorian calendar. The computation works in eras of 400
  years (146097 days) that start on a first of March, so that a leap day is the last
  day of its year. An era is cut into centuries of 36524 days, a century into cycles of
  four years (1461 days), a cycle into years of 365 days; the last day of an era and
  the last day of a cycle are leap days and stay in the last century and in the last
  year.
\<close>

text \<open>The year of the era (0..399) and the day of that year (0..365) of a day of the era.\<close>

definition year_day_of_era :: "int \<Rightarrow> int \<times> int" where
  "year_day_of_era doe =
     (let century = min (doe div 36524) 3;
          doc = doe - 36524 * century;
          cycle = doc div 1461;
          doq = doc mod 1461;
          yr = min (doq div 365) 3
      in (100 * century + 4 * cycle + yr, doq - 365 * yr))"

text \<open>The month and the day of the month of a day of a year that starts in March.\<close>

definition month_day_of_year :: "int \<Rightarrow> int \<times> int" where
  "month_day_of_year doy =
     (let mp = (5 * doy + 2) div 153
      in (if mp < 10 then mp + 3 else mp - 9, doy - (153 * mp + 2) div 5 + 1))"

definition civil_from_days :: "int \<Rightarrow> int \<times> int \<times> int" where
  "civil_from_days days =
     (case year_day_of_era ((days + 719468) mod 146097) of (yoe, doy) \<Rightarrow>
      case month_day_of_year doy of (m, d) \<Rightarrow>
        (400 * ((days + 719468) div 146097) + yoe + (if m \<le> 2 then 1 else 0), m, d))"

definition year_string :: "int \<Rightarrow> string" where
  "year_string y =
     (if 0 \<le> y \<and> y \<le> 9999 then zero_padded 4 (nat y)
      else (if y < 0 then CHR ''-'' else CHR ''+'') # zero_padded 6 (nat \<bar>y\<bar>))"

text \<open>
  Modelled from the spec: the built-in itself, which is not among the sources. An
  invalid date throws a \<open>RangeError\<close>; a valid one is written as
  \<open>YYYY-MM-DDTHH:mm:ss.sssZ\<close>, with the expanded year outside 0..9999.
\<close>

definition toISOString :: "jsdate \<Rightarrow> error + string" where
  "toISOString date =
     (case getTime date of
        NaN \<Rightarrow> Inl RangeError
      | Num t \<Rightarrow>
         (case civil_from_days (t div msPerDay) of (y, m, d) \<Rightarrow>
            Inr (year_string y @ ''-'' @ zero_padded 2 (nat m) @ ''-'' @ zero_padded 2 (nat d)
                 @ ''T'' @ zero_padded 2 (nat (t div 3600000 mod 24))
                 @ '':'' @ zero_padded 2 (nat (t div 60000 mod 60))
                 @ '':'' @ zero_padded 2 (nat (t div 1000 mod 60))
                 @ ''.'' @ zero_padded 3 (nat (t mod 1000)) @ ''Z'')))"

section \<open>The identifier generator\<close>

text \<open>
  Modelled from the spec: \<open>uuidv4\<close> is imported from the package \<open>uuid\<close>, which is not
  among the sources. The spec says that a generated identifier is a version-4 UUID
  string; the definition is the package's \<open>v4\<close>: sixteen random bytes, the version
  nibble of byte 6 set to 4, the two top bits of byte 8 set to the variant \<open>10\<close>, written
  as lower-case hexadecimal in groups of 4, 2, 2, 2 and 6 bytes. The random bytes are
  the argument, indexed 0..15.
\<close>

definition hex_char :: "nat \<Rightarrow> char" where
  "hex_char n = ''0123456789abcdef'' ! (n mod 16)"

definition byteToHex :: "8 word \<Rightarrow> string" where
  "byteToHex b = [hex_char (unat b div 16), hex_char (unat b mod 16)]"

text \<open>
  Modelled from the spec: \<open>v4\<close> of the package \<open>uuid\<close>, which is not among the sources,
  applied to the sixteen random bytes \<open>rnds\<close>.
\<close>

definition uuidv4 :: "(nat \<Rightarrow> 8 word) \<Rightarrow> string" where
  "uuidv4 rnds =
     (let r = rnds(6 := (rnds 6 AND 0x0f) OR 0x40, 8 := (rnds 8 AND 0x3f) OR 0x80)
      in concat (map (\<lambda>i. byteToHex (r i)) [0, 1, 2, 3]) @ ''-''
         @ concat (map (\<lambda>i. byteToHex (r i)) [4, 5]) @ ''-''
         @ concat (map (\<lambda>i. byteToHex (r i)) [6, 7]) @ ''-''
         @ concat (map (\<lambda>i. byteToHex (r i)) [8, 9]) @ ''-''
         @ concat (map (\<lambda>i. byteToHex (r i)) [10, 11, 12, 13, 14, 15]))"

section \<open>The request, the options and the payload\<close>

text \<open>
  What \<open>constructPayload\<close> reads of the incoming request: its URL, its headers (Node
  gives them with lower-case names) and its socket. \<open>encrypted\<close> is set on the socket of
  a TLS connection only.
\<close>

record Socket =
  encrypted :: bool
  remoteAddress :: "string option"

record IncomingMessage =
  url :: string
  headers :: "(string \<times> string) list"
  socket :: Socket

record ServerResponse =
  statusCode :: nat
  statusMessage :: string
  response_headers :: "(string \<times> string) list"

record LogOptions =
  denylist :: "string list option"
  blacklist :: "string list option"
  allowlist :: "string list option"
  whitelist :: "string list option"
  development :: "bool option"
  fireAndForget :: "bool option"

datatype 'u request_body = BodyString string | BodyObject "(string \<times> 'u) list"

record 'u PayloadData =
  apiKey :: string
  label :: "string option"
  email :: "string option"
  startedDateTime :: jsdate
  responseEndDateTime :: jsdate
  logId :: "string option"
  routePath :: "string option"
  requestBody :: "'u request_body option"
  responseBody :: "string option"

text \<open>The outgoing log body, field by field as the object literal builds it.\<close>

record Group =
  group_id :: string
  group_label :: "string option"
  group_email :: "string option"

record Creator =
  creator_name :: string
  creator_version :: string
  creator_comment :: string

record Timings =
  wait :: jsnum
  receive :: jsnum

record ('rq, 'rs) Entry =
  pageref :: string
  entry_startedDateTime :: string
  time :: jsnum
  entry_request :: 'rq
  entry_response :: 'rs
  cache :: unit
  timings :: Timings

record ('rq, 'rs) Log =
  version :: string
  creator :: Creator
  entries :: "('rq, 'rs) Entry list"

record ('rq, 'rs) OutgoingLogBody =
  payload_id :: string
  group :: Group
  clientIPAddress :: "string option"
  payload_development :: bool
  log :: "('rq, 'rs) Log"

text \<open>
  What \<open>constructPayload\<close> takes from outside its file: the random bytes of the
  identifier generator, the URL constructor of the runtime (\<open>new URL(input,
  base).toString()\<close>, which throws a \<open>TypeError\<close> on an invalid URL), the version of the
  package, the strings of \<open>os\<close> and \<open>process\<close>, and the two serialisers
  \<open>processRequest\<close> and \<open>processResponse\<close>, whose files are not among the sources.
\<close>

record ('u, 'rq, 'rs) Runtime =
  rng :: "nat \<Rightarrow> 8 word"
  url_toString :: "string \<Rightarrow> string \<Rightarrow> error + string"
  package_version :: string
  os_arch :: string
  os_platform :: string
  os_release :: string
  node_version :: string
  processRequest :: "IncomingMessage \<Rightarrow> 'u request_body option \<Rightarrow> LogOptions option \<Rightarrow> error + 'rq"
  processResponse :: "ServerResponse \<Rightarrow> string option \<Rightarrow> LogOptions option \<Rightarrow> error + 'rs"

section \<open>constructPayload\<close>

definition getProto :: "IncomingMessage \<Rightarrow> string" where
  "getProto req = (if encrypted (socket req) then ''https'' else ''http'')"

text \<open>\<open>!!logOptions?.development\<close>: false when the options or the flag are missing.\<close>

definition development_flag :: "LogOptions option \<Rightarrow> bool" where
  "development_flag logOptions =
     (case logOptions of
        None \<Rightarrow> False
      | Some opts \<Rightarrow> (case development opts of None \<Rightarrow> False | Some b \<Rightarrow> b))"

text \<open>
  The page reference: the route path when it is truthy, else the request's URL resolved
  against \<open>proto://host\<close>.
\<close>

definition entry_pageref ::
  "('u, 'rq, 'rs) Runtime \<Rightarrow> IncomingMessage \<Rightarrow> string option \<Rightarrow> error + string" where
  "entry_pageref rt req route =
     (if truthy route then Inr (the route)
      else url_toString rt (url req)
             (getProto req @ ''://'' @ template (map_of (headers req) ''host'')))"

text \<open>
  The object literal is evaluated field by field, so the first call that throws decides
  the error: the URL constructor, then \<open>toISOString\<close>, then the two serialisers.
\<close>

definition constructPayload ::
  "('u, 'rq, 'rs) Runtime \<Rightarrow> IncomingMessage \<Rightarrow> ServerResponse \<Rightarrow> 'u PayloadData
     \<Rightarrow> LogOptions option \<Rightarrow> error + ('rq, 'rs) OutgoingLogBody" where
  "constructPayload rt req res payloadData logOptions =
     (let serverTime = js_minus (getTime (responseEndDateTime payloadData))
                                (getTime (startedDateTime payloadData))
      in case entry_pageref rt req (routePath payloadData) of
           Inl e \<Rightarrow> Inl e
         | Inr page \<Rightarrow>
        (case toISOString (startedDateTime payloadData) of
           Inl e \<Rightarrow> Inl e
         | Inr started \<Rightarrow>
        (case processRequest rt req (requestBody payloadData) logOptions of
           Inl e \<Rightarrow> Inl e
         | Inr rq \<Rightarrow>
        (case processResponse rt res (responseBody payloadData) logOptions of
           Inl e \<Rightarrow> Inl e
         | Inr rs \<Rightarrow>
             Inr \<lparr> payload_id = js_or (logId payloadData) (uuidv4 (rng rt)),
                   group = \<lparr> group_id = apiKey payloadData,
                             group_label = label payloadData,
                             group_email = email payloadData \<rparr>,
                   clientIPAddress = remoteAddress (socket req),
                   payload_development = development_flag logOptions,
                   log = \<lparr> version = ''1.2'',
                           creator = \<lparr> creator_name = ''readme-metrics (node)'',
                                       creator_version = package_version rt,
                                       creator_comment =
                                         os_arch rt @ ''-'' @ os_platform rt @ os_release rt
                                         @ ''/'' @ node_version rt \<rparr>,
                           entries = [\<lparr> pageref = page,
                                        entry_startedDateTime = started,
                                        time = serverTime,
                                        entry_request = rq,
                                        entry_response = rs,
                                        cache = (),
                                        timings = \<lparr> wait = Num 0, receive = serverTime \<rparr> \<rparr>] \<rparr> \<rparr>))))"

section \<open>Shapes of strings\<close>

text \<open>
  The two string formats of the payload, the identifier and the timestamp, are
  fixed-width patterns: each position is a literal character, a decimal digit, a
  lower-case hexadecimal digit or one of a few characters.
\<close>

datatype cclass = Lit char | Digit | Hex | OneOf string

fun in_class :: "cclass \<Rightarrow> char \<Rightarrow> bool" where
  "in_class (Lit l) c = (c = l)"
| "in_class Digit c = (c \<in> set ''0123456789'')"
| "in_class Hex c = (c \<in> set ''0123456789abcdef'')"
| "in_class (OneOf cs) c = (c \<in> set cs)"

fun matches :: "cclass list \<Rightarrow> string \<Rightarrow> bool" where
  "matches [] [] = True"
| "matches (p # ps) (c # cs) = (in_class p c \<and> matches ps cs)"
| "matches _ _ = False"

text \<open>
  A version-4 UUID string: \<open>xxxxxxxx-xxxx-4xxx-yxxx-xxxxxxxxxxxx\<close>, where \<open>x\<close> is a
  hexadecimal digit and \<open>y\<close> is one of 8, 9, a, b.
\<close>

definition uuid_v4_shape :: "cclass list" where
  "uuid_v4_shape =
     replicate 8 Hex @ [Lit CHR ''-''] @ replicate 4 Hex @ [Lit CHR ''-'', Lit CHR ''4'']
     @ replicate 3 Hex @ [Lit CHR ''-'', OneOf ''89ab''] @ replicate 3 Hex
     @ [Lit CHR ''-''] @ replicate 12 Hex"

definition is_uuid_v4 :: "string \<Rightarrow> bool" where
  "is_uuid_v4 s = matches uuid_v4_shape s"

text \<open>
  An ISO-8601 timestamp in UTC with millisecond precision: \<open>-MM-DDTHH:mm:ss.sssZ\<close> after
  the year, which has four digits, or a sign and six digits (the expanded years).
\<close>

definition iso_tail_shape :: "cclass list" where
  "iso_tail_shape =
     [Lit CHR ''-'', Digit, Digit, Lit CHR ''-'', Digit, Digit, Lit CHR ''T'',
      Digit, Digit, Lit CHR '':'', Digit, Digit, Lit CHR '':'', Digit, Digit,
      Lit CHR ''.'', Digit, Digit, Digit, Lit CHR ''Z'']"

definition is_iso_ms_utc :: "string \<Rightarrow> bool" where
  "is_iso_ms_utc s =
     (matches (replicate 4 Digit @ iso_tail_shape) s
      \<or> matches (OneOf ''+-'' # replicate 6 Digit @ iso_tail_shape) s)"

section \<open>The field filter\<close>

text \<open>
  Modelled from the spec: the filter lives in the serialisers \<open>processRequest\<close> and
  \<open>processResponse\<close>, whose files are not among the sources. The spec's algorithm: for
  every field name, if the allow-list is non-empty, keep the value iff the name is in
  the allow-list; else redact it iff the name is in the deny-list, else keep it. The
  value of a redacted field is replaced by a marker; names, order and number of fields
  stay. The same filter runs over the headers, the query parameters and the body
  fields.
\<close>

record RedactionConfig =
  denyList :: "string list"
  allowList :: "string list"

datatype 'v filtered = Kept 'v | Redacted

text \<open>
  Modelled from the spec: whether the filter keeps the value of the field named \<open>n\<close>.
  The filter is not among the sources.
\<close>

definition keeps :: "RedactionConfig \<Rightarrow> string \<Rightarrow> bool" where
  "keeps cfg n =
     (if allowList cfg \<noteq> [] then n \<in> set (allowList cfg) else n \<notin> set (denyList cfg))"

text \<open>
  Modelled from the spec: the filter over a sequence of named fields, which is not
  among the sources. Names, order and length stay; a value that is not kept is replaced
  by the marker.
\<close>

definition field_filter :: "RedactionConfig \<Rightarrow> (string \<times> 'v) list \<Rightarrow> (string \<times> 'v filtered) list" where
  "field_filter cfg named =
     map (\<lambda>(n, v). (n, if keeps cfg n then Kept v else Redacted)) named"

record 'v Fields =
  header_fields :: "(string \<times> 'v) list"
  query_fields :: "(string \<times> 'v) list"
  body_fields :: "(string \<times> 'v) list"

record 'v FilteredFields =
  filtered_headers :: "(string \<times> 'v filtered) list"
  filtered_query :: "(string \<times> 'v filtered) list"
  filtered_body :: "(string \<times> 'v filtered) list"

text \<open>
  Modelled from the spec: the same filter over the headers, the query parameters and the
  body fields of a request or response; the serialisers that apply it are not among the
  sources.
\<close>

definition filter_request :: "RedactionConfig \<Rightarrow> 'v Fields \<Rightarrow> 'v FilteredFields" where
  "filter_request cfg fs =
     \<lparr> filtered_headers = field_filter cfg (header_fields fs),
       filtered_query = field_filter cfg (query_fields fs),
       filtered_body = field_filter cfg (body_fields fs) \<rparr>"

section \<open>The body classifier\<close>

text \<open>
  Modelled from the spec: the classifier lives in the serialisers, whose files are not
  among the sources. The spec's dispatch: a body of length zero gives no record,
  whatever its content type; \<open>application/json\<close> or a type that ends in \<open>+json\<close> is
  parsed as JSON and recorded in text form, the text being the body as received, and
  on a parse failure the classifier falls back to the same text form with the declared
  type; a URL-encoded form and a multipart form are decoded into parameters; any other
  type gives the text form, and an absent type the text form with a generic text type.
  The JSON parser and the two decoders are parameters; the parser returns \<open>Inl\<close> where
  \<open>JSON.parse\<close> throws.
\<close>

record Param =
  param_name :: string
  param_value :: string
  fileName :: "string option"
  contentType :: "string option"

datatype BodyRecord = TextForm string string | ParamsForm string "Param list"

record 'j Decoders =
  json_parse :: "string \<Rightarrow> error + 'j"
  decode_urlencoded :: "string \<Rightarrow> Param list"
  decode_multipart :: "string \<Rightarrow> string \<Rightarrow> Param list"

text \<open>
  Modelled from the spec: the content types of the JSON family, \<open>application/json\<close>
  (matched as a prefix, as the dispatch does) or any type that ends in \<open>+json\<close>.
\<close>

definition is_json_type :: "string \<Rightarrow> bool" where
  "is_json_type ct = (prefix ''application/json'' ct \<or> suffix ''+json'' ct)"

definition generic_text_type :: string where
  "generic_text_type = ''text/plain''"

text \<open>
  Modelled from the spec: the dispatch of the body classifier, which is not among the
  sources. The empty body comes first, since it gives no record for any content type.
\<close>

definition classify_body :: "'j Decoders \<Rightarrow> string option \<Rightarrow> string \<Rightarrow> BodyRecord option" where
  "classify_body dec declared body =
     (if body = [] then None
      else case declared of
        None \<Rightarrow> Some (TextForm generic_text_type body)
      | Some ct \<Rightarrow>
          if is_json_type ct then
            (case json_parse dec body of
               Inr parsed \<Rightarrow> Some (TextForm ct body)
             | Inl failure \<Rightarrow> Some (TextForm ct body))
          else if prefix ''application/x-www-form-urlencoded'' ct then
            Some (ParamsForm ct (decode_urlencoded dec body))
          else if prefix ''multipart/form-data'' ct then
            Some (ParamsForm ct (decode_multipart dec ct body))
          else Some (TextForm ct body))"

section \<open>A sample request\<close>

text \<open>
  A request as the integration tests make it: \<open>GET /users/1?x=1\<close> over plain HTTP to
  \<open>localhost:8000\<close>, answered 100 ms after it came in. For a path in origin form and a
  base without a path the URL constructor returns the base followed by the path, which
  is all the sample runtime knows of it; the serialisers of the sample return the names
  of their records.
\<close>

definition sample_runtime :: "(unit, string, string) Runtime" where
  "sample_runtime =
     \<lparr> rng = (\<lambda>i. of_nat (17 * i + 200)),
       url_toString = (\<lambda>input base. Inr (base @ input)),
       package_version = ''6.1.0'',
       os_arch = ''x64'',
       os_platform = ''darwin'',
       os_release = ''21.3.0'',
       node_version = ''14.19.3'',
       processRequest = (\<lambda>req body opts. Inr ''request''),
       processResponse = (\<lambda>res body opts. Inr ''response'') \<rparr>"

definition sample_request :: IncomingMessage where
  "sample_request =
     \<lparr> url = ''/users/1?x=1'',
       headers = [(''host'', ''localhost:8000''), (''connection'', ''close'')],
       socket = \<lparr> encrypted = False, remoteAddress = Some ''127.0.0.1'' \<rparr> \<rparr>"

definition sample_response :: ServerResponse where
  "sample_response =
     \<lparr> statusCode = 200, statusMessage = ''OK'',
       response_headers = [(''content-type'', ''application/json'')] \<rparr>"

definition sample_data :: "unit PayloadData" where
  "sample_data =
     \<lparr> apiKey = ''owlbert-api-key'',
       label = Some ''Owlbert'',
       email = Some ''owlbert@example.com'',
       startedDateTime = Date 1656584515394,
       responseEndDateTime = Date 1656584515494,
       logId = None,
       routePath = None,
       requestBody = None,
       responseBody = None \<rparr>"

text \<open>
  The payload of the sample, as a function of the fields that the variations of the
  sample below change: the identifier, the group id, the page reference, the start
  time as a string and the duration.
\<close>

definition sample_payload_with ::
  "string \<Rightarrow> string \<Rightarrow> string \<Rightarrow> string \<Rightarrow> jsnum \<Rightarrow> (string, string) OutgoingLogBody" where
  "sample_payload_with ident key page started duration =
     \<lparr> payload_id = ident,
       group = \<lparr> group_id = key,
                 group_label = Some ''Owlbert'',
                 group_email = Some ''owlbert@example.com'' \<rparr>,
       clientIPAddress = Some ''127.0.0.1'',
       payload_development = False,
       log = \<lparr> version = ''1.2'',
               creator = \<lparr> creator_name = ''readme-metrics (node)'',
                           creator_version = ''6.1.0'',
                           creator_comment = ''x64-darwin21.3.0/14.19.3'' \<rparr>,
               entries = [\<lparr> pageref = page,
                            entry_startedDateTime = started,
                            time = duration,
                            entry_request = ''request'',
                            entry_response = ''response'',
                            cache = (),
                            timings = \<lparr> wait = Num 0, receive = duration \<rparr> \<rparr>] \<rparr> \<rparr>"

definition sample_payload :: "(string, string) OutgoingLogBody" where
  "sample_payload =
     sample_payload_with ''c8d9eafb-0c1d-4e3f-9061-728394a5b6c7'' ''owlbert-api-key''
       ''http://localhost:8000/users/1?x=1'' ''2022-06-30T10:21:55.394Z'' (Num 100)"

text \<open>
  A redaction configuration with both lists, some named fields, and decoders whose JSON
  parser accepts the empty object only.
\<close>

definition sample_config :: RedactionConfig where
  "sample_config = \<lparr> denyList = [''authorization''], allowList = [''authorization'', ''host''] \<rparr>"

definition sample_fields :: "(string \<times> string) list" where
  "sample_fields = [(''authorization'', ''secret''), (''cookie'', ''c=1''), (''host'', ''localhost'')]"

definition sample_decoders :: "unit Decoders" where
  "sample_decoders =
     \<lparr> json_parse = (\<lambda>s. if s = ''{}'' then Inr () else Inl (Failure ''SyntaxError'')),
       decode_urlencoded = (\<lambda>s. []),
       decode_multipart = (\<lambda>ct s. []) \<rparr>"


definition sample_options :: "bool option \<Rightarrow> LogOptions" where
  "sample_options flag =
     \<lparr> denylist = None, blacklist = None, allowlist = None, whitelist = None,
       development = flag, fireAndForget = None \<rparr>"

section \<open>Evaluation\<close>

text \<open>The definitions that the simplifier unfolds to evaluate a call on concrete input.\<close>

lemma replicate_small:
  "replicate 1 x = [x]"
  "replicate 2 x = [x, x]"
  "replicate 3 x = [x, x, x]"
  "replicate 4 x = [x, x, x, x]"
  "replicate 5 x = [x, x, x, x, x]"
  by (simp_all add: numeral_eq_Suc)

lemmas builtin_defs =
  toISOString_def maxTimeValue_def msPerDay_def civil_from_days_def year_day_of_era_def
  month_day_of_year_def year_string_def zero_padded_def decimal.simps digit_char_def
  replicate_small uuidv4_def byteToHex_def hex_char_def round_double_def

lemmas sample_defs =
  constructPayload_def entry_pageref_def getProto_def development_flag_def Let_def
  sample_runtime_def sample_request_def sample_response_def sample_data_def
  sample_payload_def sample_payload_with_def

subsection \<open>The built-ins at known values\<close>

text \<open>
  What the runtime prints for some dates, the two ends of the range of time values
  among them, and what the package \<open>uuid\<close> returns for some random bytes.
\<close>

lemma toISOString_epoch: "toISOString (Date 0) = Inr ''1970-01-01T00:00:00.000Z''"
  by (simp add: builtin_defs)

lemma toISOString_before_epoch: "toISOString (Date (- 1)) = Inr ''1969-12-31T23:59:59.999Z''"
  by (simp add: builtin_defs)

lemma toISOString_leap_day: "toISOString (Date 951782400000) = Inr ''2000-02-29T00:00:00.000Z''"
  by (simp add: builtin_defs)

lemma toISOString_latest:
  "toISOString (Date 8640000000000000) = Inr ''+275760-09-13T00:00:00.000Z''"
  by (simp add: builtin_defs)

lemma toISOString_earliest:
  "toISOString (Date (- 8640000000000000)) = Inr ''-271821-04-20T00:00:00.000Z''"
  by (simp add: builtin_defs)

lemma toISOString_year_zero:
  "toISOString (Date (- 62167219200000)) = Inr ''0000-01-01T00:00:00.000Z''"
  by (simp add: builtin_defs)

lemma toISOString_beyond_range: "toISOString (Date 8640000000000001) = Inl RangeError"
  by (simp add: builtin_defs)

lemma toISOString_invalid: "toISOString InvalidDate = Inl RangeError"
  by (simp add: builtin_defs)

lemma uuidv4_zeros: "uuidv4 (\<lambda>i. 0) = ''00000000-0000-4000-8000-000000000000''"
  by (simp add: builtin_defs)

lemma uuidv4_ones: "uuidv4 (\<lambda>i. 255) = ''ffffffff-ffff-4fff-bfff-ffffffffffff''"
  by (simp add: builtin_defs)

lemma round_double_tie_down: "round_double (2 ^ 53 + 1) = 2 ^ 53"
  by (simp add: builtin_defs)

lemma round_double_tie_up: "round_double (2 ^ 53 + 3) = 2 ^ 53 + 4"
  by (simp add: builtin_defs)

subsection \<open>The sample and its variations\<close>

lemma sample_constructPayload:
  "constructPayload sample_runtime sample_request sample_response sample_data None
     = Inr sample_payload"
  by (simp add: sample_defs builtin_defs)

lemma sample_empty_key:
  "constructPayload sample_runtime sample_request sample_response
     (sample_data\<lparr>apiKey := ''''\<rparr>) None
   = Inr (sample_payload_with ''c8d9eafb-0c1d-4e3f-9061-728394a5b6c7'' ''''
       ''http://localhost:8000/users/1?x=1'' ''2022-06-30T10:21:55.394Z'' (Num 100))"
  by (simp add: sample_defs builtin_defs)

lemma sample_inverted:
  "constructPayload sample_runtime sample_request sample_response
     (sample_data\<lparr>startedDateTime := Date 1656584515494,
                   responseEndDateTime := Date 1656584515394\<rparr>) None
   = Inr (sample_payload_with ''c8d9eafb-0c1d-4e3f-9061-728394a5b6c7'' ''owlbert-api-key''
       ''http://localhost:8000/users/1?x=1'' ''2022-06-30T10:21:55.494Z'' (Num (- 100)))"
  by (simp add: sample_defs builtin_defs)


lemma sample_given_logId:
  "constructPayload sample_runtime sample_request sample_response
     (sample_data\<lparr>logId := Some ''log-1''\<rparr>) None
   = Inr (sample_payload_with ''log-1'' ''owlbert-api-key''
       ''http://localhost:8000/users/1?x=1'' ''2022-06-30T10:21:55.394Z'' (Num 100))"
  by (simp add: sample_defs builtin_defs)

lemma sample_empty_logId:
  "constructPayload sample_runtime sample_request sample_response
     (sample_data\<lparr>logId := Some ''''\<rparr>) None
   = Inr sample_payload"
  by (simp add: sample_defs builtin_defs)


lemma sample_development_true:
  "constructPayload sample_runtime sample_request sample_response sample_data
     (Some (sample_options (Some True)))
   = Inr (sample_payload\<lparr> payload_development := True \<rparr>)"
  by (simp add: sample_options_def sample_defs builtin_defs)

lemma sample_development_false:
  "constructPayload sample_runtime sample_request sample_response sample_data
     (Some (sample_options (Some False)))
   = Inr sample_payload"
  by (simp add: sample_options_def sample_defs builtin_defs)

lemma sample_development_missing:
  "constructPayload sample_runtime sample_request sample_response sample_data
     (Some (sample_options None))
   = Inr sample_payload"
  by (simp add: sample_options_def sample_defs builtin_defs)

section \<open>What a successful call returns\<close>

lemma constructPayload_Inr:
  assumes "constructPayload rt req res pd opts = Inr p"
  obtains page started rq rs where
    "entry_pageref rt req (routePath pd) = Inr page"
    "toISOString (startedDateTime pd) = Inr started"
    "processRequest rt req (requestBody pd) opts = Inr rq"
    "processResponse rt res (responseBody pd) opts = Inr rs"
    "p = \<lparr> payload_id = js_or (logId pd) (uuidv4 (rng rt)),
           group = \<lparr> group_id = apiKey pd, group_label = label pd, group_email = email pd \<rparr>,
           clientIPAddress = remoteAddress (socket req),
           payload_development = development_flag opts,
           log = \<lparr> version = ''1.2'',
                   creator = \<lparr> creator_name = ''readme-metrics (node)'',
                               creator_version = package_version rt,
                               creator_comment =
                                 os_arch rt @ ''-'' @ os_platform rt @ os_release rt
                                 @ ''/'' @ node_version rt \<rparr>,
                   entries = [\<lparr> pageref = page,
                                entry_startedDateTime = started,
                                time = js_minus (getTime (responseEndDateTime pd))
                                                (getTime (startedDateTime pd)),
                                entry_request = rq,
                                entry_response = rs,
                                cache = (),
                                timings = \<lparr> wait = Num 0,
                                            receive = js_minus (getTime (responseEndDateTime pd))
                                                               (getTime (startedDateTime pd)) \<rparr> \<rparr>] \<rparr> \<rparr>"
  using assms unfolding constructPayload_def Let_def
  by (auto split: sum.splits)

lemma constructPayload_returns:
  assumes "entry_pageref rt req (routePath pd) = Inr page"
      and "toISOString (startedDateTime pd) = Inr started"
      and "processRequest rt req (requestBody pd) opts = Inr rq"
      and "processResponse rt res (responseBody pd) opts = Inr rs"
  shows "\<exists>p. constructPayload rt req res pd opts = Inr p"
  using assms unfolding constructPayload_def Let_def by simp

section \<open>The envelope\<close>

text \<open>
  C10. Every payload that \<open>constructPayload\<close> returns has the log version \<open>1.2\<close> and
  exactly one entry, and in that entry \<open>timings.wait\<close> is 0 and \<open>timings.receive\<close> is the
  entry's \<open>time\<close>.
\<close>

theorem envelope_invariant:
  assumes "constructPayload rt req res pd opts = Inr p"
  shows "version (log p) = ''1.2''
       \<and> length (entries (log p)) = 1
       \<and> (\<forall>e \<in> set (entries (log p)). wait (timings e) = Num 0 \<and> receive (timings e) = time e)"
  using assms by (rule constructPayload_Inr) simp

theorem envelope_invariant_witness:
  "constructPayload sample_runtime sample_request sample_response sample_data None
     = Inr sample_payload
   \<and> version (log sample_payload) = ''1.2''
   \<and> length (entries (log sample_payload)) = 1
   \<and> map (\<lambda>e. (wait (timings e), receive (timings e), time e)) (entries (log sample_payload))
       = [(Num 0, Num 100, Num 100)]"
  using envelope_invariant [OF sample_constructPayload] sample_constructPayload
  by (simp add: sample_payload_def sample_payload_with_def)

section \<open>The development flag\<close>

text \<open>
  C9. The \<open>development\<close> field of a returned payload is a boolean: it is true exactly
  when the options are given and their \<open>development\<close> is \<open>true\<close>, and it is false when the
  options are missing and when they are given without the flag.
\<close>

theorem development_flag_boolean:
  assumes "constructPayload rt req res pd opts = Inr p"
  shows "payload_development p = (\<exists>given. opts = Some given \<and> development given = Some True)
       \<and> (opts = None \<longrightarrow> payload_development p = False)
       \<and> (\<forall>given. opts = Some given \<and> development given = None
                  \<longrightarrow> payload_development p = False)"
  using assms
  by (auto elim!: constructPayload_Inr simp: development_flag_def split: option.splits)

theorem development_flag_boolean_witness:
  "constructPayload sample_runtime sample_request sample_response sample_data
       (Some (sample_options (Some True)))
     = Inr (sample_payload\<lparr> payload_development := True \<rparr>)
   \<and> development (sample_options (Some True)) = Some True
   \<and> payload_development (sample_payload\<lparr> payload_development := True \<rparr>) = True
   \<and> constructPayload sample_runtime sample_request sample_response sample_data
         (Some (sample_options (Some False)))
       = Inr sample_payload
   \<and> constructPayload sample_runtime sample_request sample_response sample_data
         (Some (sample_options None))
       = Inr sample_payload
   \<and> development (sample_options None) = None
   \<and> constructPayload sample_runtime sample_request sample_response sample_data None
       = Inr sample_payload
   \<and> payload_development sample_payload = False"
proof -
  have "development (sample_options (Some True)) = Some True"
    and "development (sample_options None) = None"
    by (simp_all add: sample_options_def)
  moreover have "payload_development sample_payload = False"
    by (simp add: sample_payload_def sample_payload_with_def)
  ultimately show ?thesis
    using development_flag_boolean [OF sample_development_true]
      development_flag_boolean [OF sample_development_false]
      development_flag_boolean [OF sample_development_missing]
      development_flag_boolean [OF sample_constructPayload]
      sample_development_true sample_development_false sample_development_missing
      sample_constructPayload
    by simp
qed

section \<open>The API key\<close>

text \<open>
  C1, as amended. The claim asks for a \<open>ConfigurationError\<close> on an absent or empty
  API key. The key is a string by its type, and \<open>constructPayload\<close> has no check of it:
  whether the call raises, and what, is the same for every key, and a payload that it
  returns carries the key as \<open>group.id\<close> as it is, the empty key too.
\<close>

theorem api_key_never_checked:
  "(\<forall>k e. (constructPayload rt req res (pd\<lparr>apiKey := k\<rparr>) opts = Inl e)
            = (constructPayload rt req res pd opts = Inl e))
   \<and> (\<forall>p. constructPayload rt req res pd opts = Inr p \<longrightarrow> group_id (group p) = apiKey pd)"
  unfolding constructPayload_def Let_def
  by (auto split: sum.splits)

theorem api_key_never_checked_witness:
  "constructPayload sample_runtime sample_request sample_response sample_data None
     = Inr sample_payload
   \<and> group_id (group sample_payload) = apiKey sample_data
   \<and> constructPayload sample_runtime sample_request sample_response
         (sample_data\<lparr>apiKey := ''''\<rparr>) None \<noteq> Inl RangeError"
proof -
  have "group_id (group sample_payload) = apiKey sample_data"
    by (simp add: sample_payload_def sample_payload_with_def sample_data_def)
  then show ?thesis
    using api_key_never_checked [of sample_runtime sample_request sample_response sample_data None]
      sample_constructPayload
    by simp
qed

text \<open>
  C1 as stated fails on the sample with an empty key: the call raises nothing and
  returns a payload whose group id is the empty string.
\<close>

theorem empty_api_key_counterexample:
  "constructPayload sample_runtime sample_request sample_response
     (sample_data\<lparr>apiKey := ''''\<rparr>) None
   = Inr (sample_payload_with ''c8d9eafb-0c1d-4e3f-9061-728394a5b6c7'' ''''
       ''http://localhost:8000/users/1?x=1'' ''2022-06-30T10:21:55.394Z'' (Num 100))
   \<and> group_id (group (sample_payload_with ''c8d9eafb-0c1d-4e3f-9061-728394a5b6c7'' ''''
         ''http://localhost:8000/users/1?x=1'' ''2022-06-30T10:21:55.394Z'' (Num 100))) = ''''"
  using sample_empty_key by (simp add: sample_payload_with_def)

section \<open>The duration\<close>

lemma round_double_exact: "\<bar>r\<bar> \<le> 2 ^ 53 \<Longrightarrow> round_double r = r"
  by (simp add: round_double_def)

lemma round_double_sign: "(0 \<le> round_double r) = (0 \<le> r)"
  unfolding round_double_def by (auto simp: even_iff_mod_2_eq_zero)

lemma toISOString_Inr_getTime:
  "toISOString date = Inr s \<Longrightarrow> \<exists>t. getTime date = Num t"
  by (auto simp: toISOString_def split: jsnum.splits)

text \<open>
  C2, as amended. The entry's \<open>time\<close> is the end time minus the start time in
  milliseconds, as the subtraction of doubles gives it: exact when the magnitude of the
  difference is at most \<open>2^53\<close>. It is not clamped: it is negative exactly when the end
  time is earlier than the start time. (A payload is returned only for a valid start
  time; the end time is taken to be valid.)
\<close>

theorem duration_not_clamped:
  assumes "constructPayload rt req res pd opts = Inr p"
      and "getTime (responseEndDateTime pd) = Num finished"
  shows "\<exists>began. getTime (startedDateTime pd) = Num began
           \<and> (\<forall>x \<in> set (entries (log p)).
                  time x = Num (round_double (finished - began))
                  \<and> (\<bar>finished - began\<bar> \<le> 2 ^ 53 \<longrightarrow> time x = Num (finished - began))
                  \<and> (\<exists>ms. time x = Num ms \<and> (ms < 0) = (finished < began)))"
proof -
  from assms(1) obtain started where iso: "toISOString (startedDateTime pd) = Inr started"
    and entries: "\<forall>x \<in> set (entries (log p)).
          time x = js_minus (getTime (responseEndDateTime pd)) (getTime (startedDateTime pd))"
    by (rule constructPayload_Inr) simp
  from iso obtain began where began: "getTime (startedDateTime pd) = Num began"
    using toISOString_Inr_getTime by blast
  have sign: "(round_double (finished - began) < 0) = (finished < began)"
    using round_double_sign [of "finished - began"] by linarith
  show ?thesis
    using began entries assms(2) sign by (auto simp: round_double_exact)
qed

theorem duration_not_clamped_witness:
  "constructPayload sample_runtime sample_request sample_response sample_data None
     = Inr sample_payload
   \<and> getTime (responseEndDateTime sample_data) = Num 1656584515494
   \<and> getTime (startedDateTime sample_data) = Num 1656584515394
   \<and> map time (entries (log sample_payload)) = [Num (1656584515494 - 1656584515394)]"
proof -
  have finished: "getTime (responseEndDateTime sample_data) = Num 1656584515494"
    by (simp add: sample_data_def maxTimeValue_def)
  have "getTime (startedDateTime sample_data) = Num 1656584515394"
    by (simp add: sample_data_def maxTimeValue_def)
  moreover have "map time (entries (log sample_payload)) = [Num (1656584515494 - 1656584515394)]"
    by (simp add: sample_payload_def sample_payload_with_def)
  ultimately show ?thesis
    using duration_not_clamped [OF sample_constructPayload finished] sample_constructPayload
      finished
    by simp
qed

text \<open>
  C2 as stated fails on the sample with the two times exchanged: the reported duration
  is -100.
\<close>

theorem inverted_timestamps_counterexample:
  "constructPayload sample_runtime sample_request sample_response
     (sample_data\<lparr>startedDateTime := Date 1656584515494,
                   responseEndDateTime := Date 1656584515394\<rparr>) None
   = Inr (sample_payload_with ''c8d9eafb-0c1d-4e3f-9061-728394a5b6c7'' ''owlbert-api-key''
       ''http://localhost:8000/users/1?x=1'' ''2022-06-30T10:21:55.494Z'' (Num (- 100)))
   \<and> map time (entries (log (sample_payload_with ''c8d9eafb-0c1d-4e3f-9061-728394a5b6c7'' ''owlbert-api-key''
         ''http://localhost:8000/users/1?x=1'' ''2022-06-30T10:21:55.494Z'' (Num (- 100)))))
       = [Num (- 100)]"
  using sample_inverted by (simp add: sample_payload_with_def)

section \<open>The page reference\<close>



section \<open>The identifier\<close>

lemma hex_char_in: "hex_char n \<in> set ''0123456789abcdef''"
  unfolding hex_char_def by (rule nth_mem) simp

lemma in_class_hex_char: "in_class Hex (hex_char n)"
  unfolding in_class.simps by (rule hex_char_in)

lemma version_nibble: "unat ((b AND 0x0f) OR 0x40 :: 8 word) div 16 = 4"
proof -
  have "drop_bit 4 ((b AND 0x0f) OR 0x40 :: 8 word) = 4"
    by (rule bit_word_eqI) (auto simp: bit_simps)
  then have "unat (drop_bit 4 ((b AND 0x0f) OR 0x40 :: 8 word)) = 4"
    by simp
  then show ?thesis
    by (simp add: drop_bit_eq_div unat_div)
qed

lemma variant_bits:
  "8 \<le> unat ((b AND 0x3f) OR 0x80 :: 8 word) div 16 \<and> unat ((b AND 0x3f) OR 0x80 :: 8 word) div 16 < 12"
proof -
  have "drop_bit 6 ((b AND 0x3f) OR 0x80 :: 8 word) = 2"
    by (rule bit_word_eqI) (auto simp: bit_simps)
  then have "unat (drop_bit 6 ((b AND 0x3f) OR 0x80 :: 8 word)) = 2"
    by simp
  then have "unat ((b AND 0x3f) OR 0x80 :: 8 word) div 64 = 2"
    by (simp add: drop_bit_eq_div unat_div)
  then show ?thesis
    by arith
qed

lemma hex_char_variant: "8 \<le> n \<Longrightarrow> n < 12 \<Longrightarrow> hex_char n \<in> set ''89ab''"
proof -
  assume "8 \<le> n" "n < 12"
  then have "n = 8 \<or> n = 9 \<or> n = 10 \<or> n = 11" by arith
  then show ?thesis by (auto simp: hex_char_def)
qed

lemma matches_byte: "matches (Hex # Hex # ps) (byteToHex b @ s) = matches ps s"
  by (simp add: byteToHex_def in_class_hex_char del: in_class.simps)

lemma matches_byte_end: "matches [Hex, Hex] (byteToHex b)"
  by (simp add: byteToHex_def in_class_hex_char del: in_class.simps)

lemma version_char: "hex_char (unat ((b AND 0x0f) OR 0x40 :: 8 word) div 16) = CHR ''4''"
  by (simp add: version_nibble hex_char_def)

lemma matches_lit: "matches (Lit c # ps) (c # s) = matches ps s"
  by simp

lemma matches_version_byte:
  "matches (Lit CHR ''4'' # Hex # ps) (byteToHex ((b AND 0x0f) OR 0x40) @ s) = matches ps s"
  by (simp add: byteToHex_def in_class_hex_char version_char del: in_class.simps(3))

lemma matches_variant_byte:
  "matches (OneOf ''89ab'' # Hex # ps) (byteToHex ((b AND 0x3f) OR 0x80) @ s) = matches ps s"
  using hex_char_variant [of "unat ((b AND 0x3f) OR 0x80) div 16"] variant_bits [of b]
  by (simp add: byteToHex_def in_class_hex_char del: in_class.simps(3) list.set)

lemma uuid_v4_shape_explicit:
  "uuid_v4_shape =
     [Hex, Hex, Hex, Hex, Hex, Hex, Hex, Hex, Lit CHR ''-'', Hex, Hex, Hex, Hex,
      Lit CHR ''-'', Lit CHR ''4'', Hex, Hex, Hex, Lit CHR ''-'', OneOf ''89ab'', Hex, Hex, Hex,
      Lit CHR ''-'', Hex, Hex, Hex, Hex, Hex, Hex, Hex, Hex, Hex, Hex, Hex, Hex]"
  by (simp add: uuid_v4_shape_def numeral_eq_Suc)

lemma uuidv4_is_v4: "is_uuid_v4 (uuidv4 rnds)"
  unfolding is_uuid_v4_def uuid_v4_shape_explicit uuidv4_def Let_def
  by (simp add: matches_byte matches_byte_end matches_version_byte matches_variant_byte
        matches_lit del: matches.simps(2))

lemma length_uuidv4: "length (uuidv4 rnds) = 36"
  by (simp add: uuidv4_def byteToHex_def Let_def)

text \<open>
  C5. An identifier is supplied when \<open>logId\<close> is a non-empty string; the payload's
  \<open>_id\<close> is then that string. When none is supplied (\<open>logId\<close> is missing, or is the empty
  string, which \<open>||\<close> takes for missing) the \<open>_id\<close> is the generated one, a version-4
  UUID string.
\<close>

theorem identifier_supplied_or_generated:
  assumes "constructPayload rt req res pd opts = Inr p"
  shows "(\<forall>ident. logId pd = Some ident \<and> ident \<noteq> [] \<longrightarrow> payload_id p = ident)
       \<and> (logId pd = None \<or> logId pd = Some [] \<longrightarrow>
            payload_id p = uuidv4 (rng rt) \<and> is_uuid_v4 (payload_id p))"
  using assms
  by (rule constructPayload_Inr) (auto simp: uuidv4_is_v4)

theorem identifier_supplied_or_generated_witness:
  "constructPayload sample_runtime sample_request sample_response sample_data None
     = Inr sample_payload
   \<and> logId sample_data = None
   \<and> payload_id sample_payload = ''c8d9eafb-0c1d-4e3f-9061-728394a5b6c7''
   \<and> is_uuid_v4 ''c8d9eafb-0c1d-4e3f-9061-728394a5b6c7''
   \<and> constructPayload sample_runtime sample_request sample_response
         (sample_data\<lparr>logId := Some ''log-1''\<rparr>) None
       = Inr (sample_payload_with ''log-1'' ''owlbert-api-key''
           ''http://localhost:8000/users/1?x=1'' ''2022-06-30T10:21:55.394Z'' (Num 100))
   \<and> payload_id (sample_payload_with ''log-1'' ''owlbert-api-key''
           ''http://localhost:8000/users/1?x=1'' ''2022-06-30T10:21:55.394Z'' (Num 100))
       = ''log-1''"
proof -
  have "payload_id sample_payload = ''c8d9eafb-0c1d-4e3f-9061-728394a5b6c7''"
    by (simp add: sample_payload_def sample_payload_with_def)
  moreover have "logId sample_data = None"
    by (simp add: sample_data_def)
  moreover have "payload_id (sample_payload_with ''log-1'' ''owlbert-api-key''
           ''http://localhost:8000/users/1?x=1'' ''2022-06-30T10:21:55.394Z'' (Num 100))
       = ''log-1''"
    by (simp add: sample_payload_with_def)
  ultimately show ?thesis
    using identifier_supplied_or_generated [OF sample_constructPayload]
      identifier_supplied_or_generated [OF sample_given_logId]
      sample_constructPayload sample_given_logId
    by auto
qed

text \<open>
  C8. With the empty string as \<open>logId\<close> the payload's \<open>_id\<close> is not the empty string but
  the generated identifier; whatever the caller passes, the \<open>_id\<close> is never empty.
\<close>

theorem empty_logId_not_used:
  assumes "constructPayload rt req res pd opts = Inr p"
  shows "(logId pd = Some [] \<longrightarrow> payload_id p = uuidv4 (rng rt)) \<and> payload_id p \<noteq> []"
proof -
  have "uuidv4 (rng rt) \<noteq> []"
    using length_uuidv4 [of "rng rt"] by auto
  moreover from assms have "payload_id p = js_or (logId pd) (uuidv4 (rng rt))"
    by (rule constructPayload_Inr) simp
  ultimately show ?thesis
    by (cases "logId pd") auto
qed

theorem empty_logId_not_used_witness:
  "constructPayload sample_runtime sample_request sample_response
     (sample_data\<lparr>logId := Some ''''\<rparr>) None = Inr sample_payload
   \<and> logId (sample_data\<lparr>logId := Some ''''\<rparr>) = Some ''''
   \<and> payload_id sample_payload = ''c8d9eafb-0c1d-4e3f-9061-728394a5b6c7''
   \<and> payload_id sample_payload = uuidv4 (rng sample_runtime)"
proof -
  have "payload_id sample_payload = ''c8d9eafb-0c1d-4e3f-9061-728394a5b6c7''"
    by (simp add: sample_payload_def sample_payload_with_def)
  moreover have "logId (sample_data\<lparr>logId := Some ''''\<rparr>) = Some ''''"
    by simp
  ultimately show ?thesis
    using empty_logId_not_used [OF sample_empty_logId] sample_empty_logId
    by auto
qed

section \<open>The start time\<close>

lemma in_class_digit_char: "in_class Digit (digit_char n)"
  unfolding in_class.simps digit_char_def by (rule nth_mem) simp

lemma decimal_digits: "c \<in> set (decimal n) \<Longrightarrow> in_class Digit c"
proof (induction n arbitrary: c rule: decimal.induct)
  case (1 n)
  show ?case
  proof (cases "n < 10")
    case True
    with "1.prems" show ?thesis
      by (simp add: decimal.simps [of n] in_class_digit_char del: in_class.simps)
  next
    case False
    with "1.prems" "1.IH" show ?thesis
      by (auto simp: decimal.simps [of n] in_class_digit_char simp del: in_class.simps)
  qed
qed

lemma length_decimal: "n < 10 ^ w \<Longrightarrow> 0 < w \<Longrightarrow> length (decimal n) \<le> w"
proof (induction w arbitrary: n)
  case 0
  then show ?case by simp
next
  case (Suc w)
  show ?case
  proof (cases "n < 10")
    case True
    then show ?thesis by (simp add: decimal.simps [of n])
  next
    case False
    with Suc.prems have "0 < w" by (cases w) auto
    moreover from Suc.prems have "n div 10 < 10 ^ w" by simp
    ultimately have "length (decimal (n div 10)) \<le> w" by (rule Suc.IH [rotated])
    with False show ?thesis by (simp add: decimal.simps [of n])
  qed
qed

lemma matches_replicate:
  "matches (replicate k c) s = (length s = k \<and> (\<forall>x \<in> set s. in_class c x))"
  by (induction k arbitrary: s) (case_tac s; auto)+

lemma matches_append:
  "matches p s \<Longrightarrow> matches q t \<Longrightarrow> matches (p @ q) (s @ t)"
  by (induction p s rule: matches.induct) auto

lemma matches_zero_padded:
  assumes "n < 10 ^ w" and "0 < w"
  shows "matches (replicate w Digit) (zero_padded w n)"
proof -
  have "length (decimal n) \<le> w"
    using assms by (rule length_decimal)
  then have "length (zero_padded w n) = w"
    by (simp add: zero_padded_def)
  moreover have "in_class Digit CHR ''0''"
    by simp
  then have "\<forall>x \<in> set (zero_padded w n). in_class Digit x"
    using decimal_digits by (auto simp: zero_padded_def simp del: in_class.simps)
  ultimately show ?thesis
    by (simp only: matches_replicate) 
qed


lemma year_day_of_era_bounds:
  assumes "0 \<le> doe" and "doe \<le> 146096" and "year_day_of_era doe = (yoe, doy)"
  shows "0 \<le> yoe \<and> yoe \<le> 399 \<and> 0 \<le> doy \<and> doy \<le> 365"
proof -
  define century where "century = min (doe div 36524) 3"
  define doc where "doc = doe - 36524 * century"
  define cycle where "cycle = doc div 1461"
  define doq where "doq = doc mod 1461"
  define yr where "yr = min (doq div 365) 3"
  have "year_day_of_era doe = (100 * century + 4 * cycle + yr, doq - 365 * yr)"
    unfolding year_day_of_era_def Let_def century_def doc_def cycle_def doq_def yr_def
    by (rule refl)
  with assms(3) have yoe: "yoe = 100 * century + 4 * cycle + yr" and doy: "doy = doq - 365 * yr"
    by simp_all
  have century: "0 \<le> century \<and> century \<le> 3"
    using assms(1) unfolding century_def by simp
  have doc: "0 \<le> doc \<and> doc \<le> 36524"
    using assms(1,2) unfolding doc_def century_def by arith
  have cycle: "0 \<le> cycle \<and> cycle \<le> 24"
    using doc unfolding cycle_def by arith
  have doq: "0 \<le> doq \<and> doq \<le> 1460"
    unfolding doq_def by simp
  have yr: "0 \<le> yr \<and> yr \<le> 3"
    using doq unfolding yr_def by arith
  have "0 \<le> doy \<and> doy \<le> 365"
    using doq unfolding doy yr_def by arith
  then show ?thesis
    using century cycle yr unfolding yoe by simp
qed

lemma month_day_of_year_bounds:
  assumes "0 \<le> doy" and "doy \<le> 365" and "month_day_of_year doy = (m, d)"
  shows "1 \<le> m \<and> m \<le> 12 \<and> 1 \<le> d \<and> d \<le> 31"
proof -
  define mp where "mp = (5 * doy + 2) div 153"
  define md where "md = (153 * mp + 2) div 5"
  have "month_day_of_year doy = (if mp < 10 then mp + 3 else mp - 9, doy - md + 1)"
    unfolding month_day_of_year_def Let_def mp_def md_def by (rule refl)
  with assms(3) have m: "m = (if mp < 10 then mp + 3 else mp - 9)" and d: "d = doy - md + 1"
    by simp_all
  have mp: "0 \<le> mp \<and> mp \<le> 11"
    using assms(1,2) unfolding mp_def by arith
  have low: "153 * mp \<le> 5 * doy + 2" and high: "5 * doy + 2 < 153 * mp + 153"
    unfolding mp_def by arith+
  have md: "5 * md \<le> 153 * mp + 2 \<and> 153 * mp + 2 < 5 * md + 5"
    unfolding md_def by arith
  have "1 \<le> d \<and> d \<le> 31"
    using low high md unfolding d by arith
  then show ?thesis
    using mp unfolding m by simp
qed


lemma civil_from_days_bounds:
  assumes "civil_from_days n = (y, m, d)"
  shows "1 \<le> m \<and> m \<le> 12 \<and> 1 \<le> d \<and> d \<le> 31
       \<and> (\<bar>n\<bar> \<le> 100000000 \<longrightarrow> \<bar>y\<bar> \<le> 999999)"
proof -
  define doe where "doe = (n + 719468) mod 146097"
  define era where "era = (n + 719468) div 146097"
  obtain yoe doy where yd: "year_day_of_era doe = (yoe, doy)"
    by (cases "year_day_of_era doe")
  obtain m' d' where md: "month_day_of_year doy = (m', d')"
    by (cases "month_day_of_year doy")
  have "civil_from_days n = (400 * era + yoe + (if m' \<le> 2 then 1 else 0), m', d')"
    unfolding civil_from_days_def using yd md by (simp add: doe_def era_def)
  with assms have y: "y = 400 * era + yoe + (if m \<le> 2 then 1 else 0)"
    and m: "m' = m" and d: "d' = d"
    by auto
  have "0 \<le> doe" and "doe \<le> 146096"
    by (simp_all add: doe_def)
  then have yoe: "0 \<le> yoe \<and> yoe \<le> 399 \<and> 0 \<le> doy \<and> doy \<le> 365"
    using yd by (rule year_day_of_era_bounds)
  then have month: "1 \<le> m \<and> m \<le> 12 \<and> 1 \<le> d \<and> d \<le> 31"
    using md month_day_of_year_bounds [of doy m' d'] unfolding m d by simp
  have "\<bar>y\<bar> \<le> 999999" if "\<bar>n\<bar> \<le> 100000000"
  proof -
    have "- 684 \<le> era \<and> era \<le> 689"
      using that unfolding era_def by arith
    then show ?thesis
      using yoe unfolding y by (simp split: if_splits) arith
  qed
  with month show ?thesis by simp
qed

lemma day_number_bound: "\<bar>t\<bar> \<le> maxTimeValue \<Longrightarrow> \<bar>t div msPerDay\<bar> \<le> 100000000"
  unfolding maxTimeValue_def msPerDay_def by arith

lemma year_string_shape:
  assumes "\<bar>y\<bar> \<le> 999999"
  shows "matches (replicate 4 Digit) (year_string y)
       \<or> matches (OneOf ''+-'' # replicate 6 Digit) (year_string y)"
proof (cases "0 \<le> y \<and> y \<le> 9999")
  case True
  then have "nat y < 10 ^ 4" by simp arith
  then have "matches (replicate 4 Digit) (zero_padded 4 (nat y))"
    by (rule matches_zero_padded) simp
  with True show ?thesis by (simp add: year_string_def)
next
  case False
  from assms have "nat \<bar>y\<bar> < 10 ^ 6" by simp
  then have "matches (replicate 6 Digit) (zero_padded 6 (nat \<bar>y\<bar>))"
    by (rule matches_zero_padded) simp
  with False show ?thesis by (simp add: year_string_def)
qed

lemma iso_tail_shape_split:
  "iso_tail_shape =
     [Lit CHR ''-''] @ replicate 2 Digit @ [Lit CHR ''-''] @ replicate 2 Digit
     @ [Lit CHR ''T''] @ replicate 2 Digit @ [Lit CHR '':''] @ replicate 2 Digit
     @ [Lit CHR '':''] @ replicate 2 Digit @ [Lit CHR ''.''] @ replicate 3 Digit
     @ [Lit CHR ''Z'']"
  by (simp add: iso_tail_shape_def numeral_eq_Suc)

lemma matches_two: "n < 100 \<Longrightarrow> matches (replicate 2 Digit) (zero_padded 2 n)"
  by (rule matches_zero_padded) simp_all

lemma matches_three: "n < 1000 \<Longrightarrow> matches (replicate 3 Digit) (zero_padded 3 n)"
  by (rule matches_zero_padded) simp_all

lemma matches_literal: "matches [Lit c] [c]"
  by simp

lemma iso_tail:
  assumes "1 \<le> m \<and> m \<le> 12 \<and> 1 \<le> d \<and> d \<le> 31"
  shows "matches iso_tail_shape
           (''-'' @ zero_padded 2 (nat m) @ ''-'' @ zero_padded 2 (nat d)
            @ ''T'' @ zero_padded 2 (nat (t div 3600000 mod 24))
            @ '':'' @ zero_padded 2 (nat (t div 60000 mod 60))
            @ '':'' @ zero_padded 2 (nat (t div 1000 mod 60))
            @ ''.'' @ zero_padded 3 (nat (t mod 1000)) @ ''Z'')"
proof -
  have month: "matches (replicate 2 Digit) (zero_padded 2 (nat m))"
    using assms by (intro matches_two) arith
  have day: "matches (replicate 2 Digit) (zero_padded 2 (nat d))"
    using assms by (intro matches_two) arith
  have hour: "matches (replicate 2 Digit) (zero_padded 2 (nat (t div 3600000 mod 24)))"
    by (intro matches_two) arith
  have minute: "matches (replicate 2 Digit) (zero_padded 2 (nat (t div 60000 mod 60)))"
    by (intro matches_two) arith
  have second: "matches (replicate 2 Digit) (zero_padded 2 (nat (t div 1000 mod 60)))"
    by (intro matches_two) arith
  have milli: "matches (replicate 3 Digit) (zero_padded 3 (nat (t mod 1000)))"
    by (intro matches_three) arith
  show ?thesis
    unfolding iso_tail_shape_split
    by (intro matches_append matches_literal month day hour minute second milli)
qed

lemma toISOString_shape:
  assumes "toISOString date = Inr s"
  shows "is_iso_ms_utc s"
proof -
  from assms obtain t where t: "getTime date = Num t"
    by (auto simp: toISOString_def split: jsnum.splits)
  then have range: "\<bar>t\<bar> \<le> maxTimeValue"
    by (cases date) (auto split: if_splits)
  obtain y m d where civil: "civil_from_days (t div msPerDay) = (y, m, d)"
    by (cases "civil_from_days (t div msPerDay)")
  have s: "s = year_string y @ (''-'' @ zero_padded 2 (nat m) @ ''-'' @ zero_padded 2 (nat d)
            @ ''T'' @ zero_padded 2 (nat (t div 3600000 mod 24))
            @ '':'' @ zero_padded 2 (nat (t div 60000 mod 60))
            @ '':'' @ zero_padded 2 (nat (t div 1000 mod 60))
            @ ''.'' @ zero_padded 3 (nat (t mod 1000)) @ ''Z'')"
    using assms t civil by (simp add: toISOString_def)
  from civil have bounds: "1 \<le> m \<and> m \<le> 12 \<and> 1 \<le> d \<and> d \<le> 31"
    and "\<bar>t div msPerDay\<bar> \<le> 100000000 \<longrightarrow> \<bar>y\<bar> \<le> 999999"
    using civil_from_days_bounds by blast+
  with range have "\<bar>y\<bar> \<le> 999999"
    using day_number_bound by blast
  then have "matches (replicate 4 Digit) (year_string y)
       \<or> matches (OneOf ''+-'' # replicate 6 Digit) (year_string y)"
    by (rule year_string_shape)
  then show ?thesis
  proof
    assume "matches (replicate 4 Digit) (year_string y)"
    then have "matches (replicate 4 Digit @ iso_tail_shape) s"
      unfolding s using iso_tail [OF bounds] by (rule matches_append)
    then show ?thesis by (simp add: is_iso_ms_utc_def)
  next
    assume "matches (OneOf ''+-'' # replicate 6 Digit) (year_string y)"
    then have "matches ((OneOf ''+-'' # replicate 6 Digit) @ iso_tail_shape) s"
      unfolding s using iso_tail [OF bounds] by (rule matches_append)
    then show ?thesis by (simp add: is_iso_ms_utc_def)
  qed
qed

text \<open>
  C7. The payload has one timestamp field, the entry's \<open>startedDateTime\<close>. In every
  payload that \<open>constructPayload\<close> returns it is what \<open>toISOString\<close> gives for the start
  time: an ISO-8601 string with three digits of milliseconds and a trailing \<open>Z\<close>.
\<close>

theorem startedDateTime_iso8601:
  assumes "constructPayload rt req res pd opts = Inr p"
  shows "\<forall>x \<in> set (entries (log p)).
           toISOString (startedDateTime pd) = Inr (entry_startedDateTime x)
         \<and> is_iso_ms_utc (entry_startedDateTime x)"
  using assms
  by (rule constructPayload_Inr) (auto simp: toISOString_shape)

theorem startedDateTime_iso8601_witness:
  "constructPayload sample_runtime sample_request sample_response sample_data None
     = Inr sample_payload
   \<and> map entry_startedDateTime (entries (log sample_payload)) = [''2022-06-30T10:21:55.394Z'']
   \<and> is_iso_ms_utc ''2022-06-30T10:21:55.394Z''"
proof -
  have "map entry_startedDateTime (entries (log sample_payload)) = [''2022-06-30T10:21:55.394Z'']"
    by (simp add: sample_payload_def sample_payload_with_def)
  then show ?thesis
    using startedDateTime_iso8601 [OF sample_constructPayload] sample_constructPayload
    by auto
qed

section \<open>The allow-list and the deny-list\<close>

text \<open>
  C3. With a non-empty allow-list the deny-list has no effect: the filter gives the
  same result whatever the deny-list is, over the headers, the query parameters and the
  body fields, and the value of a field is kept exactly when its name is in the
  allow-list.
\<close>

theorem allow_list_wins:
  assumes "allowList cfg \<noteq> []"
  shows "field_filter (cfg\<lparr>denyList := deny\<rparr>) named = field_filter cfg named
       \<and> filter_request (cfg\<lparr>denyList := deny\<rparr>) fs = filter_request cfg fs
       \<and> keeps cfg n = (n \<in> set (allowList cfg))
       \<and> field_filter cfg named
           = map (\<lambda>(n, v). (n, if n \<in> set (allowList cfg) then Kept v else Redacted)) named"
  using assms by (simp add: field_filter_def filter_request_def keeps_def)

theorem allow_list_wins_witness:
  "allowList sample_config \<noteq> []
   \<and> field_filter sample_config sample_fields
       = [(''authorization'', Kept ''secret''), (''cookie'', Redacted),
          (''host'', Kept ''localhost'')]
   \<and> field_filter (sample_config\<lparr>denyList := [''host'', ''cookie'']\<rparr>) sample_fields
       = field_filter sample_config sample_fields
   \<and> keeps sample_config ''host''"
proof -
  have given: "allowList sample_config \<noteq> []"
    by (simp add: sample_config_def)
  have "field_filter sample_config sample_fields
       = [(''authorization'', Kept ''secret''), (''cookie'', Redacted),
          (''host'', Kept ''localhost'')]"
    by (simp add: field_filter_def keeps_def sample_config_def sample_fields_def)
  moreover have "''host'' \<in> set (allowList sample_config)"
    by (simp add: sample_config_def)
  ultimately show ?thesis
    using given
      allow_list_wins [OF given, of "[''host'', ''cookie'']" sample_fields
        "\<lparr> header_fields = sample_fields, query_fields = [], body_fields = [] \<rparr>" "''host''"]
    by simp
qed

section \<open>Malformed JSON\<close>

text \<open>
  C6. A body (of length above zero: a body of length zero is no body and gives no
  record) that is declared as \<open>application/json\<close> or with a type that ends in \<open>+json\<close>
  and that the JSON parser rejects gives a record in text form, with the body as
  received and the declared type. The classifier has no error result.
\<close>

theorem malformed_json_degrades:
  assumes "is_json_type ct" and "body \<noteq> []" and "json_parse dec body = Inl failure"
  shows "classify_body dec (Some ct) body = Some (TextForm ct body)"
  using assms by (simp add: classify_body_def)

theorem malformed_json_degrades_witness:
  "is_json_type ''application/json''
   \<and> is_json_type ''application/vnd.api+json''
   \<and> json_parse sample_decoders ''{oops'' = Inl (Failure ''SyntaxError'')
   \<and> classify_body sample_decoders (Some ''application/json'') ''{oops''
       = Some (TextForm ''application/json'' ''{oops'')
   \<and> classify_body sample_decoders (Some ''application/vnd.api+json'') ''{oops''
       = Some (TextForm ''application/vnd.api+json'' ''{oops'')"
proof -
  have plain: "is_json_type ''application/json''"
    and vendored: "is_json_type ''application/vnd.api+json''"
    by (simp_all add: is_json_type_def suffix_def)
  have rejected: "json_parse sample_decoders ''{oops'' = Inl (Failure ''SyntaxError'')"
    by (simp add: sample_decoders_def)
  show ?thesis
    using plain vendored rejected
      malformed_json_degrades [OF plain _ rejected] malformed_json_degrades [OF vendored _ rejected]
    by simp
qed

end
